theory Spec2Isabelle
  imports Main "HOL-Library.Word"
begin

section \<open>JavaScript values\<close>

subsection \<open>Strings\<close>

text \<open>
  A JavaScript string is a sequence of UTF-16 code units: \<open>length\<close>, \<open>substring\<close> and
  \<open>trim\<close> count and cut code units. Literals of the source that are ASCII are written
  with \<open>ascii\<close>; the Chinese literals are listed by their code units further down.
\<close>

type_synonym jsstring = "16 word list"

definition ascii :: "string \<Rightarrow> jsstring" where
  "ascii s = map (\<lambda>c. of_nat (of_char c)) s"

text \<open>\<open>text.substring(0, n)\<close> for a non-negative literal \<open>n\<close>.\<close>

definition substring0 :: "jsstring \<Rightarrow> nat \<Rightarrow> jsstring" where
  "substring0 text n = take n text"

text \<open>
  \<open>String.prototype.trim\<close> strips the code points that ECMAScript calls WhiteSpace
  (TAB, VT, FF, ZWNBSP and the Unicode space separators) and LineTerminator
  (LF, CR, LS, PS) from both ends. All of them lie in the basic plane.
\<close>

definition is_white :: "16 word \<Rightarrow> bool" where
  "is_white c \<longleftrightarrow>
     c \<in> {0x09, 0x0A, 0x0B, 0x0C, 0x0D, 0x20, 0xA0, 0x1680,
          0x2000, 0x2001, 0x2002, 0x2003, 0x2004, 0x2005, 0x2006, 0x2007, 0x2008, 0x2009,
          0x200A, 0x2028, 0x2029, 0x202F, 0x205F, 0x3000, 0xFEFF}"

definition trim :: "jsstring \<Rightarrow> jsstring" where
  "trim s = rev (dropWhile is_white (rev (dropWhile is_white s)))"

subsection \<open>Numbers\<close>

text \<open>
  A JavaScript number is an IEEE 754 binary64 value. A finite one is \<open>Fin m e\<close>, standing
  for \<open>m * 2 ^ e\<close>, kept in the one canonical form in which it is stored: \<open>2 ^ 52 \<le> \<bar>m\<bar> < 2 ^ 53\<close> with
  \<open>- 1074 \<le> e \<le> 971\<close>, or \<open>\<bar>m\<bar> < 2 ^ 52\<close> with \<open>e = - 1074\<close> (subnormal), or
  \<open>Fin 0 0\<close> for zero. The two zeros are identified: nothing modelled here tells them
  apart. \<open>Infinity True\<close> is the negative infinity.
\<close>

datatype jsnum = NaN | Infinity bool | Fin int int

function bit_length :: "int \<Rightarrow> int" where
  "bit_length n = (if n \<le> 0 then 0 else 1 + bit_length (n div 2))"
  by pat_completeness auto
termination
  by (relation "measure nat") auto

declare bit_length.simps [simp del]

text \<open>The quotient \<open>num / den\<close> rounded to the nearest integer, ties to the even one.\<close>

definition round_half_even :: "int \<Rightarrow> int \<Rightarrow> int" where
  "round_half_even num den =
     (let n = num div den; r = num mod den
      in if den < 2 * r \<or> (2 * r = den \<and> odd n) then n + 1 else n)"

text \<open>The integer part of the binary logarithm of \<open>p / q\<close>, for positive \<open>p\<close> and \<open>q\<close>.\<close>

definition floor_log2 :: "int \<Rightarrow> int \<Rightarrow> int" where
  "floor_log2 p q =
     (let k = bit_length p - bit_length q
      in if q * 2 ^ nat k \<le> p * 2 ^ nat (- k) then k else k - 1)"

text \<open>
  The binary64 value nearest to \<open>\<plusminus> p / q\<close> (\<open>0 \<le> p\<close>, \<open>0 < q\<close>), in the default rounding
  mode: to nearest, ties to even, overflowing to infinity.
\<close>

definition round64 :: "bool \<Rightarrow> int \<Rightarrow> int \<Rightarrow> jsnum" where
  "round64 neg p q =
     (if p = 0 then Fin 0 0
      else
        let e = max (floor_log2 p q - 52) (- 1074);
            n = round_half_even (p * 2 ^ nat (- e)) (q * 2 ^ nat e);
            n' = (if n = 2 ^ 53 then 2 ^ 52 else n);
            e' = (if n = 2 ^ 53 then e + 1 else e)
        in if n' = 0 then Fin 0 0
           else if 971 < e' then Infinity neg
           else Fin (if neg then - n' else n') e')"

text \<open>An integer literal of the source, and a decimal literal \<open>p / 10 ^ d\<close>.\<close>

definition num :: "int \<Rightarrow> jsnum" where
  "num n = round64 (n < 0) \<bar>n\<bar> 1"

definition decimal :: "int \<Rightarrow> nat \<Rightarrow> jsnum" where
  "decimal p d = round64 (p < 0) \<bar>p\<bar> (10 ^ d)"

text \<open>The operator \<open>*\<close> on numbers: the exact product, rounded.\<close>

fun multiply :: "jsnum \<Rightarrow> jsnum \<Rightarrow> jsnum" where
  "multiply NaN _ = NaN"
| "multiply _ NaN = NaN"
| "multiply (Infinity a) (Infinity b) = Infinity (a \<noteq> b)"
| "multiply (Infinity a) (Fin m e) = (if m = 0 then NaN else Infinity (a \<noteq> (m < 0)))"
| "multiply (Fin m e) (Infinity b) = (if m = 0 then NaN else Infinity ((m < 0) \<noteq> b))"
| "multiply (Fin m1 e1) (Fin m2 e2) =
     round64 ((m1 < 0) \<noteq> (m2 < 0))
       (\<bar>m1 * m2\<bar> * 2 ^ nat (e1 + e2)) (2 ^ nat (- (e1 + e2)))"

text \<open>The decimal digits of a non-negative integer.\<close>

function digits :: "int \<Rightarrow> jsstring" where
  "digits n =
     (if n < 10 then [word_of_int (48 + n)]
      else digits (n div 10) @ [word_of_int (48 + n mod 10)])"
  by pat_completeness auto
termination
  by (relation "measure nat") auto

declare digits.simps [simp del]

text \<open>
  \<open>Number.prototype.toFixed(f)\<close> as ECMA-262 defines it, for \<open>0 \<le> f \<le> 100\<close> (the
  pages only call it with the literal 2, so the RangeError outside that range is left out):
  a value that is not finite prints its name; from \<open>10 ^ 21\<close> on the result is the general
  number-to-string conversion, taken as the parameter \<open>numberToString\<close>; below that, \<open>n\<close>
  is the integer nearest to \<open>x * 10 ^ f\<close> (the larger one on a tie), printed with \<open>f\<close>
  digits after the point.
\<close>

definition toFixed :: "(jsnum \<Rightarrow> jsstring) \<Rightarrow> jsnum \<Rightarrow> nat \<Rightarrow> jsstring" where
  "toFixed numberToString x f =
     (case x of
        NaN \<Rightarrow> ascii ''NaN''
      | Infinity neg \<Rightarrow> (if neg then ascii ''-Infinity'' else ascii ''Infinity'')
      | Fin mant e \<Rightarrow>
          let s = (if mant < 0 then ascii ''-'' else []);
              a = \<bar>mant\<bar>
          in if 10 ^ 21 * 2 ^ nat (- e) \<le> a * 2 ^ nat e then s @ numberToString (Fin a e)
             else
               let n = (2 * a * 10 ^ f * 2 ^ nat e + 2 ^ nat (- e)) div (2 * 2 ^ nat (- e));
                   m = (if n = 0 then ascii ''0'' else digits n);
                   k = length m;
                   m' = (if k \<le> f then replicate (f + 1 - k) 0x30 @ m else m);
                   k' = length m'
               in if f \<noteq> 0 then s @ take (k' - f) m' @ ascii ''.'' @ drop (k' - f) m'
                  else s @ m)"

text \<open>
  \<open>Number::toString\<close>, which \<open>+\<close> and a template literal apply to a number. For an
  integer below \<open>2 ^ 53\<close> in magnitude it is the decimal digits, after a minus sign when
  negative; a value that is not finite prints its name; for every other number it is the
  shortest decimal that reads back as the same value, taken as the parameter
  \<open>numberToString\<close> (\<open>nts\<close> for short in what follows).
\<close>

definition number_string :: "(jsnum \<Rightarrow> jsstring) \<Rightarrow> jsnum \<Rightarrow> jsstring" where
  "number_string numberToString x =
     (case x of
        NaN \<Rightarrow> ascii ''NaN''
      | Infinity neg \<Rightarrow> (if neg then ascii ''-Infinity'' else ascii ''Infinity'')
      | Fin m e \<Rightarrow>
          if \<bar>m\<bar> * 2 ^ nat e mod 2 ^ nat (- e) = 0 \<and> \<bar>m\<bar> * 2 ^ nat e < 2 ^ 53 * 2 ^ nat (- e)
          then (if m < 0 then ascii ''-'' else []) @ digits (\<bar>m\<bar> * 2 ^ nat e div 2 ^ nat (- e))
          else numberToString x)"

subsection \<open>Values\<close>

text \<open>
  A field typed \<open>T | undefined\<close> that the backend may also send as \<open>null\<close>.
\<close>

datatype 'a optional = Undefined | Null | Defined 'a

text \<open>
  What \<open>JSON.parse\<close> returns, and what a request or response body holds. An object
  lists its own keys, each once.
\<close>

datatype jsval =
    JUndefined
  | JNull
  | JBool bool
  | JNum jsnum
  | JStr jsstring
  | JArr "jsval list"
  | JObj "(jsstring \<times> jsval) list"

text \<open>ToBoolean.\<close>

fun truthy :: "jsval \<Rightarrow> bool" where
  "truthy JUndefined = False"
| "truthy JNull = False"
| "truthy (JBool b) = b"
| "truthy (JNum NaN) = False"
| "truthy (JNum (Infinity _)) = True"
| "truthy (JNum (Fin m e)) = (m \<noteq> 0)"
| "truthy (JStr s) = (s \<noteq> [])"
| "truthy (JArr _) = True"
| "truthy (JObj _) = True"

text \<open>What the code can throw while it reads or converts a value.\<close>

datatype thrown = SyntaxError | TypeError

text \<open>
  The conversion to a string that \<open>+\<close> applies to its operand. An array prints its
  elements separated by commas, \<open>null\<close> and \<open>undefined\<close> among them as nothing; an object
  prints as \<open>[object Object]\<close>, unless it has a key \<open>toString\<close> of its own: the value
  under it, coming from JSON, is not a function, and the conversion throws a TypeError.
\<close>

fun to_string :: "(jsnum \<Rightarrow> jsstring) \<Rightarrow> jsval \<Rightarrow> thrown + jsstring"
  and array_join :: "(jsnum \<Rightarrow> jsstring) \<Rightarrow> jsval list \<Rightarrow> thrown + jsstring" where
  "to_string nts JUndefined = Inr (ascii ''undefined'')"
| "to_string nts JNull = Inr (ascii ''null'')"
| "to_string nts (JBool b) = Inr (if b then ascii ''true'' else ascii ''false'')"
| "to_string nts (JNum n) = Inr (number_string nts n)"
| "to_string nts (JStr s) = Inr s"
| "to_string nts (JArr xs) = array_join nts xs"
| "to_string nts (JObj kvs) =
     (if map_of kvs (ascii ''toString'') = None then Inr (ascii ''[object Object]'')
      else Inl TypeError)"
| "array_join nts [] = Inr []"
| "array_join nts (x # xs) =
     (case (if x = JUndefined \<or> x = JNull then Inr [] else to_string nts x) of
        Inl e \<Rightarrow> Inl e
      | Inr a \<Rightarrow>
          if xs = [] then Inr a
          else (case array_join nts xs of
                  Inl e \<Rightarrow> Inl e
                | Inr b \<Rightarrow> Inr (a @ ascii '','' @ b)))"

section \<open>The HTTP client and the feature API modules\<close>

datatype http_verb = GET | POST | PUT | DELETE

text \<open>The configuration \<open>axios.create\<close> receives: the client it returns.\<close>

record http_client =
  baseURL :: jsstring
  timeout :: nat

text \<open>
  A request names the client that issues it. \<open>params\<close> is the query string
  (\<open>{ params: {...} }\<close>), \<open>data\<close> the body, \<open>JUndefined\<close> when none is given.
\<close>

record request =
  client :: http_client
  verb :: http_verb
  url :: jsstring
  params :: "(jsstring \<times> jsval) list"
  data :: jsval

definition http_get :: "http_client \<Rightarrow> jsstring \<Rightarrow> (jsstring \<times> jsval) list \<Rightarrow> request" where
  "http_get c u ps = \<lparr>client = c, verb = GET, url = u, params = ps, data = JUndefined\<rparr>"

definition http_post :: "http_client \<Rightarrow> jsstring \<Rightarrow> jsval \<Rightarrow> request" where
  "http_post c u d = \<lparr>client = c, verb = POST, url = u, params = [], data = d\<rparr>"

definition http_put :: "http_client \<Rightarrow> jsstring \<Rightarrow> jsval \<Rightarrow> request" where
  "http_put c u d = \<lparr>client = c, verb = PUT, url = u, params = [], data = d\<rparr>"

definition http_delete :: "http_client \<Rightarrow> jsstring \<Rightarrow> request" where
  "http_delete c u = \<lparr>client = c, verb = DELETE, url = u, params = [], data = JUndefined\<rparr>"

text \<open>\<open>const api = axios.create({ baseURL: '/api', timeout: 30000 })\<close>\<close>

definition api :: http_client where
  "api = \<lparr>baseURL = ascii ''/api'', timeout = 30000\<rparr>"

text \<open>
  A parameter with a default (\<open>skip = 0\<close>) takes the default when the argument is
  \<open>undefined\<close>, here \<open>None\<close>. A record identifier is a number; the template literal
  that puts it into a path prints it with \<open>number_string\<close>.
\<close>

definition default_arg :: "'a \<Rightarrow> 'a option \<Rightarrow> 'a" where
  "default_arg d a = (case a of None \<Rightarrow> d | Some v \<Rightarrow> v)"

subsection \<open>taskApi\<close>

definition taskApi_runTask :: "jsstring \<Rightarrow> jsnum option \<Rightarrow> request" where
  "taskApi_runTask task taskId =
     http_post api (ascii ''/tasks/run'')
       (JObj [(ascii ''task'', JStr task),
              (ascii ''task_id'',
                 (case taskId of None \<Rightarrow> JUndefined | Some i \<Rightarrow> JNum i))])"

definition taskApi_getTask :: "(jsnum \<Rightarrow> jsstring) \<Rightarrow> jsnum \<Rightarrow> request" where
  "taskApi_getTask nts taskId =
     http_get api (ascii ''/tasks/'' @ number_string nts taskId) []"

definition taskApi_getTasks :: "jsnum option \<Rightarrow> jsnum option \<Rightarrow> request" where
  "taskApi_getTasks skip limit =
     http_get api (ascii ''/tasks'')
       [(ascii ''skip'', JNum (default_arg (num 0) skip)),
        (ascii ''limit'', JNum (default_arg (num 100) limit))]"

definition taskApi_deleteTask :: "(jsnum \<Rightarrow> jsstring) \<Rightarrow> jsnum \<Rightarrow> request" where
  "taskApi_deleteTask nts taskId =
     http_delete api (ascii ''/tasks/'' @ number_string nts taskId)"

subsection \<open>businessKnowledgeApi\<close>

definition businessKnowledgeApi_create :: "jsval \<Rightarrow> request" where
  "businessKnowledgeApi_create d = http_post api (ascii ''/business-knowledge'') d"

definition businessKnowledgeApi_get :: "(jsnum \<Rightarrow> jsstring) \<Rightarrow> jsnum \<Rightarrow> request" where
  "businessKnowledgeApi_get nts i =
     http_get api (ascii ''/business-knowledge/'' @ number_string nts i) []"

definition businessKnowledgeApi_list :: "jsnum option \<Rightarrow> jsnum option \<Rightarrow> request" where
  "businessKnowledgeApi_list skip limit =
     http_get api (ascii ''/business-knowledge'')
       [(ascii ''skip'', JNum (default_arg (num 0) skip)),
        (ascii ''limit'', JNum (default_arg (num 100) limit))]"

definition businessKnowledgeApi_update ::
    "(jsnum \<Rightarrow> jsstring) \<Rightarrow> jsnum \<Rightarrow> jsval \<Rightarrow> request" where
  "businessKnowledgeApi_update nts i d =
     http_put api (ascii ''/business-knowledge/'' @ number_string nts i) d"

definition businessKnowledgeApi_delete :: "(jsnum \<Rightarrow> jsstring) \<Rightarrow> jsnum \<Rightarrow> request" where
  "businessKnowledgeApi_delete nts i =
     http_delete api (ascii ''/business-knowledge/'' @ number_string nts i)"

definition businessKnowledgeApi_searchByQuestion ::
    "jsstring \<Rightarrow> jsnum option \<Rightarrow> jsnum option \<Rightarrow> request" where
  "businessKnowledgeApi_searchByQuestion query topK threshold =
     http_post api (ascii ''/business-knowledge/search/question'')
       (JObj [(ascii ''query_text'', JStr query),
              (ascii ''top_k'', JNum (default_arg (num 5) topK)),
              (ascii ''threshold'', JNum (default_arg (num 0) threshold))])"

definition businessKnowledgeApi_searchByAnswer ::
    "jsstring \<Rightarrow> jsnum option \<Rightarrow> jsnum option \<Rightarrow> request" where
  "businessKnowledgeApi_searchByAnswer query topK threshold =
     http_post api (ascii ''/business-knowledge/search/answer'')
       (JObj [(ascii ''query_text'', JStr query),
              (ascii ''top_k'', JNum (default_arg (num 5) topK)),
              (ascii ''threshold'', JNum (default_arg (num 0) threshold))])"

definition businessKnowledgeApi_count :: request where
  "businessKnowledgeApi_count = http_get api (ascii ''/business-knowledge/count'') []"

subsection \<open>reasoningKnowledgeApi\<close>

definition reasoningKnowledgeApi_create :: "jsval \<Rightarrow> request" where
  "reasoningKnowledgeApi_create d = http_post api (ascii ''/reasoning-knowledge'') d"

definition reasoningKnowledgeApi_get :: "(jsnum \<Rightarrow> jsstring) \<Rightarrow> jsnum \<Rightarrow> request" where
  "reasoningKnowledgeApi_get nts i =
     http_get api (ascii ''/reasoning-knowledge/'' @ number_string nts i) []"

definition reasoningKnowledgeApi_list :: "jsnum option \<Rightarrow> jsnum option \<Rightarrow> request" where
  "reasoningKnowledgeApi_list skip limit =
     http_get api (ascii ''/reasoning-knowledge'')
       [(ascii ''skip'', JNum (default_arg (num 0) skip)),
        (ascii ''limit'', JNum (default_arg (num 100) limit))]"

definition reasoningKnowledgeApi_update ::
    "(jsnum \<Rightarrow> jsstring) \<Rightarrow> jsnum \<Rightarrow> jsval \<Rightarrow> request" where
  "reasoningKnowledgeApi_update nts i d =
     http_put api (ascii ''/reasoning-knowledge/'' @ number_string nts i) d"

definition reasoningKnowledgeApi_delete :: "(jsnum \<Rightarrow> jsstring) \<Rightarrow> jsnum \<Rightarrow> request" where
  "reasoningKnowledgeApi_delete nts i =
     http_delete api (ascii ''/reasoning-knowledge/'' @ number_string nts i)"

definition reasoningKnowledgeApi_searchByTask ::
    "jsstring \<Rightarrow> jsnum option \<Rightarrow> jsnum option \<Rightarrow> request" where
  "reasoningKnowledgeApi_searchByTask query topK threshold =
     http_post api (ascii ''/reasoning-knowledge/search/task'')
       (JObj [(ascii ''query_text'', JStr query),
              (ascii ''top_k'', JNum (default_arg (num 5) topK)),
              (ascii ''threshold'', JNum (default_arg (num 0) threshold))])"

definition reasoningKnowledgeApi_searchByStep ::
    "jsstring \<Rightarrow> jsnum option \<Rightarrow> jsnum option \<Rightarrow> request" where
  "reasoningKnowledgeApi_searchByStep query topK threshold =
     http_post api (ascii ''/reasoning-knowledge/search/step'')
       (JObj [(ascii ''query_text'', JStr query),
              (ascii ''top_k'', JNum (default_arg (num 5) topK)),
              (ascii ''threshold'', JNum (default_arg (num 0) threshold))])"

definition reasoningKnowledgeApi_count :: request where
  "reasoningKnowledgeApi_count = http_get api (ascii ''/reasoning-knowledge/count'') []"

section \<open>The data model\<close>

text \<open>
  The interfaces \<open>Task\<close>, \<open>BusinessKnowledge\<close> and \<open>ReasoningKnowledge\<close>. The field
  \<open>id\<close> they share is \<open>id'\<close> here, the timestamps and the similarity that both
  knowledge interfaces declare are in their common part.
\<close>

record entity =
  id' :: jsnum

record Task = entity +
  original_task :: jsstring
  enhanced_task :: "jsstring optional"
  can_execute :: "bool optional"
  execution_reason :: "jsstring optional"
  steps :: "jsstring optional"
  step_results :: jsval
  final_result :: "jsstring optional"
  all_success :: "bool optional"

record knowledge = entity +
  created_at :: "jsstring optional"
  updated_at :: "jsstring optional"
  similarity :: "jsnum optional"

record BusinessKnowledge = knowledge +
  question_text :: jsstring
  answer_text :: jsstring

record ReasoningKnowledge = knowledge +
  task_text :: jsstring
  step_text :: jsstring

section \<open>What a handler does\<close>

text \<open>
  A handler is a function of the outcome of each call it awaits and of the page state;
  it returns, in order, what it did to the outside (requests issued, notifications shown,
  timers and dialogs started) and the new page state. A call that fails rejects with an
  axios error: \<open>response_data\<close> is \<open>error.response?.data\<close>, the body the backend sent,
  \<open>None\<close> when there was no response at all (a network failure or the timeout);
  \<open>message\<close> is \<open>error.message\<close>.
\<close>

record axios_error =
  response_data :: "jsval option"
  message :: jsstring

datatype level = MsgSuccess | MsgWarning | MsgError

text \<open>
  The two closures the task page hands over: the timer's \<open>() => { fetchTasks() }\<close> and
  the \<open>onOk\<close> of the delete dialog, for the task it closes over.
\<close>

datatype callback = CallFetchTasks | OnOkDelete jsnum

text \<open>\<open>Uncaught\<close> is an exception that leaves the handler.\<close>

datatype effect =
    Request request
  | Message level jsstring
  | SetTimeout callback nat
  | ModalConfirm jsstring jsstring callback
  | Uncaught thrown

text \<open>
  \<open>error.response?.data?.detail\<close>: the property \<open>detail\<close> of the body when the body is
  an object that has it, \<open>undefined\<close> otherwise (no response, no body, or a body that is
  text, a number or an array).
\<close>

definition detail :: "axios_error \<Rightarrow> jsval" where
  "detail error =
     (case response_data error of
        None \<Rightarrow> JUndefined
      | Some body \<Rightarrow>
          (case body of
             JObj kvs \<Rightarrow>
               (case map_of kvs (ascii ''detail'') of None \<Rightarrow> JUndefined | Some v \<Rightarrow> v)
           | _ \<Rightarrow> JUndefined))"

text \<open>\<open>error.response?.data?.detail || error.message\<close>\<close>

definition detail_or_message :: "axios_error \<Rightarrow> jsval" where
  "detail_or_message error =
     (if truthy (detail error) then detail error else JStr (message error))"

text \<open>
  \<open>message.error(p + (error.response?.data?.detail || error.message))\<close>, the last
  statement of every \<open>catch\<close>: the notification, or the TypeError of a value that does
  not convert to a string, which leaves the handler after its \<open>finally\<close>.
\<close>

definition message_error ::
    "(jsnum \<Rightarrow> jsstring) \<Rightarrow> jsstring \<Rightarrow> axios_error \<Rightarrow> effect list" where
  "message_error nts p error =
     (case to_string nts (detail_or_message error) of
        Inr t \<Rightarrow> [Message MsgError (p @ t)]
      | Inl e \<Rightarrow> [Uncaught e])"

text \<open>The requests among the effects, in the order they were issued.\<close>

fun requests :: "effect list \<Rightarrow> request list" where
  "requests [] = []"
| "requests (Request r # fx) = r # requests fx"
| "requests (_ # fx) = requests fx"

text \<open>The notifications among the effects.\<close>

fun messages :: "effect list \<Rightarrow> (level \<times> jsstring) list" where
  "messages [] = []"
| "messages (Message l m # fx) = (l, m) # messages fx"
| "messages (_ # fx) = messages fx"

text \<open>The timers among the effects: the closure and the delay in milliseconds.\<close>

fun timers :: "effect list \<Rightarrow> (callback \<times> nat) list" where
  "timers [] = []"
| "timers (SetTimeout c ms # fx) = (c, ms) # timers fx"
| "timers (_ # fx) = timers fx"

subsection \<open>The literals shown to the user\<close>

definition msg_fetch_tasks_failed :: jsstring where
  "msg_fetch_tasks_failed =
     [0x83B7, 0x53D6, 0x4EFB, 0x52A1, 0x5217, 0x8868, 0x5931, 0x8D25, 0x3A, 0x20]"

definition msg_enter_task :: jsstring where
  "msg_enter_task = [0x8BF7, 0x8F93, 0x5165, 0x4EFB, 0x52A1, 0x63CF, 0x8FF0]"

definition msg_task_queued :: jsstring where
  "msg_task_queued =
     [0x4EFB, 0x52A1, 0x5DF2, 0x6DFB, 0x52A0, 0x5230, 0x6267, 0x884C, 0x961F, 0x5217,
      0xFF0C, 0x49, 0x44, 0x3A, 0x20]"

definition msg_run_failed :: jsstring where
  "msg_run_failed = [0x542F, 0x52A8, 0x4EFB, 0x52A1, 0x5931, 0x8D25, 0x3A, 0x20]"

definition msg_detail_failed :: jsstring where
  "msg_detail_failed =
     [0x83B7, 0x53D6, 0x4EFB, 0x52A1, 0x8BE6, 0x60C5, 0x5931, 0x8D25, 0x3A, 0x20]"



definition msg_delete_ok :: jsstring where
  "msg_delete_ok = [0x5220, 0x9664, 0x6210, 0x529F]"

definition msg_delete_failed :: jsstring where
  "msg_delete_failed = [0x5220, 0x9664, 0x5931, 0x8D25, 0x3A, 0x20]"

definition msg_fetch_knowledge_failed :: jsstring where
  "msg_fetch_knowledge_failed =
     [0x83B7, 0x53D6, 0x77E5, 0x8BC6, 0x5217, 0x8868, 0x5931, 0x8D25, 0x3A, 0x20]"

definition msg_update_ok :: jsstring where
  "msg_update_ok = [0x66F4, 0x65B0, 0x6210, 0x529F]"

definition msg_create_ok :: jsstring where
  "msg_create_ok = [0x521B, 0x5EFA, 0x6210, 0x529F]"

definition msg_operation_failed :: jsstring where
  "msg_operation_failed = [0x64CD, 0x4F5C, 0x5931, 0x8D25, 0x3A, 0x20]"

definition msg_search_failed :: jsstring where
  "msg_search_failed = [0x641C, 0x7D22, 0x5931, 0x8D25, 0x3A, 0x20]"

definition txt_unknown :: jsstring where
  "txt_unknown = [0x672A, 0x77E5]"

definition txt_yes :: jsstring where
  "txt_yes = [0x662F]"

definition txt_no :: jsstring where
  "txt_no = [0x5426]"

section \<open>TasksPage\<close>

text \<open>The \<open>useState\<close> cells of the pages; both kinds of page have the first two.\<close>

record page =
  loading :: bool
  modalVisible :: bool

record tasks_page = page +
  tasks :: "Task list"
  detailModalVisible :: bool
  selectedTask :: "Task option"
  taskInput :: jsstring

text \<open>The body \<open>response.data\<close> of a successful \<open>/tasks/run\<close>.\<close>

record run_response =
  task_id :: jsnum

definition TasksPage_fetchTasks ::
    "(jsnum \<Rightarrow> jsstring)
       \<Rightarrow> axios_error + Task list \<Rightarrow> tasks_page \<Rightarrow> effect list \<times> tasks_page" where
  "TasksPage_fetchTasks nts response s =
     (let s1 = s\<lparr>loading := True\<rparr>;
          req = taskApi_getTasks (Some (num 0)) (Some (num 100))
      in case response of
           Inr d \<Rightarrow> ([Request req], s1\<lparr>tasks := d, loading := False\<rparr>)
         | Inl error \<Rightarrow>
             (Request req # message_error nts msg_fetch_tasks_failed error,
              s1\<lparr>loading := False\<rparr>))"

text \<open>
  On success the handler only starts the timer; \<open>fetchTasks\<close> runs when it fires, 1000 ms
  later.
\<close>

definition TasksPage_handleRunTask ::
    "(jsnum \<Rightarrow> jsstring)
       \<Rightarrow> axios_error + run_response \<Rightarrow> tasks_page \<Rightarrow> effect list \<times> tasks_page" where
  "TasksPage_handleRunTask nts response s =
     (if trim (taskInput s) = [] then ([Message MsgWarning msg_enter_task], s)
      else
        let req = taskApi_runTask (trim (taskInput s)) None
        in case response of
             Inr d \<Rightarrow>
               ([Request req,
                 Message MsgSuccess (msg_task_queued @ number_string nts (task_id d)),
                 SetTimeout CallFetchTasks 1000],
                s\<lparr>modalVisible := False, taskInput := []\<rparr>)
           | Inl error \<Rightarrow>
               (Request req # message_error nts msg_run_failed error, s))"

definition TasksPage_handleViewDetail ::
    "(jsnum \<Rightarrow> jsstring)
       \<Rightarrow> jsnum \<Rightarrow> axios_error + Task \<Rightarrow> tasks_page \<Rightarrow> effect list \<times> tasks_page" where
  "TasksPage_handleViewDetail nts taskId response s =
     (let req = taskApi_getTask nts taskId
      in case response of
           Inr d \<Rightarrow> ([Request req], s\<lparr>selectedTask := Some d, detailModalVisible := True\<rparr>)
         | Inl error \<Rightarrow>
             (Request req # message_error nts msg_detail_failed error, s))"


definition TasksPage_handleDelete_onOk ::
    "(jsnum \<Rightarrow> jsstring)
       \<Rightarrow> jsnum \<Rightarrow> axios_error + unit \<Rightarrow> axios_error + Task list \<Rightarrow> tasks_page
       \<Rightarrow> effect list \<times> tasks_page" where
  "TasksPage_handleDelete_onOk nts taskId deleted refreshed s =
     (let req = taskApi_deleteTask nts taskId
      in case deleted of
           Inr _ \<Rightarrow>
             (let (fx, s') = TasksPage_fetchTasks nts refreshed s
              in ([Request req, Message MsgSuccess msg_delete_ok] @ fx, s'))
         | Inl error \<Rightarrow>
             (Request req # message_error nts msg_delete_failed error, s))"


text \<open>The initial values of the \<open>useState\<close> cells.\<close>

definition TasksPage_initial :: tasks_page where
  "TasksPage_initial =
     \<lparr>loading = False, modalVisible = False, tasks = [], detailModalVisible = False,
      selectedTask = None, taskInput = []\<rparr>"

subsection \<open>The columns of the task table\<close>

datatype tag = Tag jsstring jsstring

text \<open>\<open>text || '-'\<close>\<close>

definition render_text :: "jsstring optional \<Rightarrow> jsstring" where
  "render_text text =
     (case text of Defined t \<Rightarrow> if t \<noteq> [] then t else ascii ''-'' | _ \<Rightarrow> ascii ''-'')"

text \<open>The \<open>render\<close> of the columns \<open>all_success\<close> and \<open>can_execute\<close>: the same function.\<close>

definition render_all_success :: "bool optional \<Rightarrow> tag" where
  "render_all_success allSuccess =
     (if allSuccess = Null \<or> allSuccess = Undefined then Tag (ascii ''default'') txt_unknown
      else if allSuccess = Defined True then Tag (ascii ''success'') txt_yes
      else Tag (ascii ''error'') txt_no)"

definition render_can_execute :: "bool optional \<Rightarrow> tag" where
  "render_can_execute canExecute =
     (if canExecute = Null \<or> canExecute = Undefined then Tag (ascii ''default'') txt_unknown
      else if canExecute = Defined True then Tag (ascii ''success'') txt_yes
      else Tag (ascii ''error'') txt_no)"

text \<open>The table hands each \<open>render\<close> the field that \<open>dataIndex\<close> names.\<close>

definition column_all_success :: "Task \<Rightarrow> tag" where
  "column_all_success record = render_all_success (all_success record)"

definition column_can_execute :: "Task \<Rightarrow> tag" where
  "column_can_execute record = render_can_execute (can_execute record)"

text \<open>The two items of the detail dialog.\<close>

definition detail_all_success :: "Task \<Rightarrow> jsstring" where
  "detail_all_success selected =
     (if all_success selected = Null \<or> all_success selected = Undefined then txt_unknown
      else if all_success selected = Defined True then txt_yes
      else txt_no)"

definition detail_can_execute :: "Task \<Rightarrow> jsstring" where
  "detail_can_execute selected =
     (if can_execute selected = Null \<or> can_execute selected = Undefined then txt_unknown
      else if can_execute selected = Defined True then txt_yes
      else txt_no)"

text \<open>
  The column \<open>final_result\<close>. \<open>JSON.parse\<close> is the parameter \<open>JSON_parse\<close>: it returns the
  parsed value or throws a SyntaxError. Reading \<open>.summary\<close> off \<open>null\<close> throws a TypeError;
  off an object it is the property of that name (an object lists each of its keys once), off
  any other value it is \<open>undefined\<close>. Both exceptions end in the one \<open>catch\<close>.
\<close>

definition get_summary :: "jsval \<Rightarrow> thrown + jsval" where
  "get_summary parsed =
     (case parsed of
        JUndefined \<Rightarrow> Inl TypeError
      | JNull \<Rightarrow> Inl TypeError
      | JObj kvs \<Rightarrow>
          Inr (case map_of kvs (ascii ''summary'') of None \<Rightarrow> JUndefined | Some v \<Rightarrow> v)
      | _ \<Rightarrow> Inr JUndefined)"

definition render_final_result ::
    "(jsstring \<Rightarrow> thrown + jsval) \<Rightarrow> jsstring optional \<Rightarrow> jsval" where
  "render_final_result JSON_parse text =
     (case text of
        Defined t \<Rightarrow>
          if t = [] then JStr (ascii ''-'')
          else
            (case (case JSON_parse t of
                     Inl e \<Rightarrow> Inl e
                   | Inr parsed \<Rightarrow>
                       (case get_summary parsed of
                          Inl e \<Rightarrow> Inl e
                        | Inr summary \<Rightarrow>
                            Inr (if truthy summary then summary
                                 else JStr (substring0 t 50 @ ascii ''...'')))) of
               Inr v \<Rightarrow> v
             | Inl _ \<Rightarrow>
                 JStr (if 50 < length t then substring0 t 50 @ ascii ''...'' else t))
      | _ \<Rightarrow> JStr (ascii ''-''))"

definition column_final_result :: "(jsstring \<Rightarrow> thrown + jsval) \<Rightarrow> Task \<Rightarrow> jsval" where
  "column_final_result JSON_parse record = render_final_result JSON_parse (final_result record)"

section \<open>The knowledge pages\<close>

text \<open>
  \<open>BusinessKnowledgePage\<close> and \<open>ReasoningKnowledgePage\<close> hold the same cells, over their
  own kind of entry.
\<close>

record 'k knowledge_page = page +
  knowledgeList :: "'k list"
  editingItem :: "'k option"
  searchResults :: "'k list"
  searchLoading :: bool

text \<open>
  What \<open>searchForm.validateFields()\<close> resolves to. \<open>query_text\<close> is required by the form's
  rule, the two numbers may be cleared by the user.
\<close>

record search_values =
  query_text :: jsstring
  top_k :: "jsnum optional"
  threshold :: "jsnum optional"

text \<open>\<open>values.top_k || 5\<close> and \<open>values.threshold || 0.0\<close>\<close>

definition number_or :: "jsnum optional \<Rightarrow> jsnum \<Rightarrow> jsnum" where
  "number_or v d = (case v of Defined n \<Rightarrow> if truthy (JNum n) then n else d | _ \<Rightarrow> d)"


text \<open>
  The column \<open>similarity\<close>, the same in both pages. \<open>null * 100\<close> is 0.
\<close>

definition render_similarity :: "(jsnum \<Rightarrow> jsstring) \<Rightarrow> jsnum optional \<Rightarrow> jsstring" where
  "render_similarity numberToString sim =
     (if sim \<noteq> Undefined
      then toFixed numberToString
             (multiply (case sim of Defined x \<Rightarrow> x | _ \<Rightarrow> num 0) (num 100)) 2
           @ ascii ''%''
      else ascii ''-'')"

definition column_similarity ::
    "(jsnum \<Rightarrow> jsstring) \<Rightarrow> 'a knowledge_scheme \<Rightarrow> jsstring" where
  "column_similarity numberToString record =
     render_similarity numberToString (similarity record)"

text \<open>
  In the handlers below, \<open>validateFields\<close> either resolves to the form's values (\<open>Some\<close>)
  or rejects with an object that has \<open>errorFields\<close> (\<open>None\<close>), which the \<open>catch\<close> answers
  with a silent return; an axios error has no such field. The values of the edit form go
  to the API as they are.
\<close>

subsection \<open>BusinessKnowledgePage\<close>

datatype business_axis = Question | Answer

definition BusinessKnowledgePage_fetchKnowledge ::
    "(jsnum \<Rightarrow> jsstring)
       \<Rightarrow> axios_error + BusinessKnowledge list \<Rightarrow> BusinessKnowledge knowledge_page
       \<Rightarrow> effect list \<times> BusinessKnowledge knowledge_page" where
  "BusinessKnowledgePage_fetchKnowledge nts response s =
     (let s1 = s\<lparr>loading := True\<rparr>;
          req = businessKnowledgeApi_list (Some (num 0)) (Some (num 100))
      in case response of
           Inr d \<Rightarrow> ([Request req], s1\<lparr>knowledgeList := d, loading := False\<rparr>)
         | Inl error \<Rightarrow>
             (Request req # message_error nts msg_fetch_knowledge_failed error,
              s1\<lparr>loading := False\<rparr>))"

definition BusinessKnowledgePage_handleSubmit ::
    "(jsnum \<Rightarrow> jsstring)
       \<Rightarrow> jsval option \<Rightarrow> axios_error + unit \<Rightarrow> axios_error + BusinessKnowledge list
       \<Rightarrow> BusinessKnowledge knowledge_page \<Rightarrow> effect list \<times> BusinessKnowledge knowledge_page" where
  "BusinessKnowledgePage_handleSubmit nts validated saved refreshed s =
     (case validated of
        None \<Rightarrow> ([], s)
      | Some values \<Rightarrow>
          (let req = (case editingItem s of
                        Some item \<Rightarrow> businessKnowledgeApi_update nts (id' item) values
                      | None \<Rightarrow> businessKnowledgeApi_create values)
           in case saved of
                Inr _ \<Rightarrow>
                  (let (fx, s') =
                         BusinessKnowledgePage_fetchKnowledge nts refreshed (s\<lparr>modalVisible := False\<rparr>)
                   in ([Request req,
                        Message MsgSuccess
                          (case editingItem s of
                             Some _ \<Rightarrow> msg_update_ok
                           | None \<Rightarrow> msg_create_ok)] @ fx, s'))
              | Inl error \<Rightarrow>
                  (Request req # message_error nts msg_operation_failed error, s)))"

definition BusinessKnowledgePage_handleDelete ::
    "(jsnum \<Rightarrow> jsstring)
       \<Rightarrow> jsnum \<Rightarrow> axios_error + unit \<Rightarrow> axios_error + BusinessKnowledge list
       \<Rightarrow> BusinessKnowledge knowledge_page \<Rightarrow> effect list \<times> BusinessKnowledge knowledge_page" where
  "BusinessKnowledgePage_handleDelete nts i deleted refreshed s =
     (let req = businessKnowledgeApi_delete nts i
      in case deleted of
           Inr _ \<Rightarrow>
             (let (fx, s') = BusinessKnowledgePage_fetchKnowledge nts refreshed s
              in ([Request req, Message MsgSuccess msg_delete_ok] @ fx, s'))
         | Inl error \<Rightarrow>
             (Request req # message_error nts msg_delete_failed error, s))"

text \<open>The \<open>finally\<close> clears \<open>searchLoading\<close> on every path, the silent return included.\<close>

definition BusinessKnowledgePage_handleSearch ::
    "(jsnum \<Rightarrow> jsstring)
       \<Rightarrow> business_axis \<Rightarrow> search_values option \<Rightarrow> axios_error + BusinessKnowledge list
       \<Rightarrow> BusinessKnowledge knowledge_page \<Rightarrow> effect list \<times> BusinessKnowledge knowledge_page" where
  "BusinessKnowledgePage_handleSearch nts type validated response s =
     (case validated of
        None \<Rightarrow> ([], s\<lparr>searchLoading := False\<rparr>)
      | Some values \<Rightarrow>
          (let s1 = s\<lparr>searchLoading := True\<rparr>;
               req = (if type = Question
                      then businessKnowledgeApi_searchByQuestion (query_text values)
                             (Some (number_or (top_k values) (num 5)))
                             (Some (number_or (threshold values) (num 0)))
                      else businessKnowledgeApi_searchByAnswer (query_text values)
                             (Some (number_or (top_k values) (num 5)))
                             (Some (number_or (threshold values) (num 0))))
           in case response of
                Inr d \<Rightarrow> ([Request req], s1\<lparr>searchResults := d, searchLoading := False\<rparr>)
              | Inl error \<Rightarrow>
                  (Request req # message_error nts msg_search_failed error,
                   s1\<lparr>searchLoading := False\<rparr>)))"

subsection \<open>ReasoningKnowledgePage\<close>

datatype reasoning_axis = ByTask | ByStep

definition ReasoningKnowledgePage_fetchKnowledge ::
    "(jsnum \<Rightarrow> jsstring)
       \<Rightarrow> axios_error + ReasoningKnowledge list \<Rightarrow> ReasoningKnowledge knowledge_page
       \<Rightarrow> effect list \<times> ReasoningKnowledge knowledge_page" where
  "ReasoningKnowledgePage_fetchKnowledge nts response s =
     (let s1 = s\<lparr>loading := True\<rparr>;
          req = reasoningKnowledgeApi_list (Some (num 0)) (Some (num 100))
      in case response of
           Inr d \<Rightarrow> ([Request req], s1\<lparr>knowledgeList := d, loading := False\<rparr>)
         | Inl error \<Rightarrow>
             (Request req # message_error nts msg_fetch_knowledge_failed error,
              s1\<lparr>loading := False\<rparr>))"

definition ReasoningKnowledgePage_handleSubmit ::
    "(jsnum \<Rightarrow> jsstring)
       \<Rightarrow> jsval option \<Rightarrow> axios_error + unit \<Rightarrow> axios_error + ReasoningKnowledge list
       \<Rightarrow> ReasoningKnowledge knowledge_page \<Rightarrow> effect list \<times> ReasoningKnowledge knowledge_page" where
  "ReasoningKnowledgePage_handleSubmit nts validated saved refreshed s =
     (case validated of
        None \<Rightarrow> ([], s)
      | Some values \<Rightarrow>
          (let req = (case editingItem s of
                        Some item \<Rightarrow> reasoningKnowledgeApi_update nts (id' item) values
                      | None \<Rightarrow> reasoningKnowledgeApi_create values)
           in case saved of
                Inr _ \<Rightarrow>
                  (let (fx, s') =
                         ReasoningKnowledgePage_fetchKnowledge nts refreshed (s\<lparr>modalVisible := False\<rparr>)
                   in ([Request req,
                        Message MsgSuccess
                          (case editingItem s of
                             Some _ \<Rightarrow> msg_update_ok
                           | None \<Rightarrow> msg_create_ok)] @ fx, s'))
              | Inl error \<Rightarrow>
                  (Request req # message_error nts msg_operation_failed error, s)))"

definition ReasoningKnowledgePage_handleDelete ::
    "(jsnum \<Rightarrow> jsstring)
       \<Rightarrow> jsnum \<Rightarrow> axios_error + unit \<Rightarrow> axios_error + ReasoningKnowledge list
       \<Rightarrow> ReasoningKnowledge knowledge_page \<Rightarrow> effect list \<times> ReasoningKnowledge knowledge_page" where
  "ReasoningKnowledgePage_handleDelete nts i deleted refreshed s =
     (let req = reasoningKnowledgeApi_delete nts i
      in case deleted of
           Inr _ \<Rightarrow>
             (let (fx, s') = ReasoningKnowledgePage_fetchKnowledge nts refreshed s
              in ([Request req, Message MsgSuccess msg_delete_ok] @ fx, s'))
         | Inl error \<Rightarrow>
             (Request req # message_error nts msg_delete_failed error, s))"

text \<open>The \<open>finally\<close> clears \<open>searchLoading\<close> on every path, the silent return included.\<close>

definition ReasoningKnowledgePage_handleSearch ::
    "(jsnum \<Rightarrow> jsstring)
       \<Rightarrow> reasoning_axis \<Rightarrow> search_values option \<Rightarrow> axios_error + ReasoningKnowledge list
       \<Rightarrow> ReasoningKnowledge knowledge_page \<Rightarrow> effect list \<times> ReasoningKnowledge knowledge_page" where
  "ReasoningKnowledgePage_handleSearch nts type validated response s =
     (case validated of
        None \<Rightarrow> ([], s\<lparr>searchLoading := False\<rparr>)
      | Some values \<Rightarrow>
          (let s1 = s\<lparr>searchLoading := True\<rparr>;
               req = (if type = ByTask
                      then reasoningKnowledgeApi_searchByTask (query_text values)
                             (Some (number_or (top_k values) (num 5)))
                             (Some (number_or (threshold values) (num 0)))
                      else reasoningKnowledgeApi_searchByStep (query_text values)
                             (Some (number_or (top_k values) (num 5)))
                             (Some (number_or (threshold values) (num 0))))
           in case response of
                Inr d \<Rightarrow> ([Request req], s1\<lparr>searchResults := d, searchLoading := False\<rparr>)
              | Inl error \<Rightarrow>
                  (Request req # message_error nts msg_search_failed error,
                   s1\<lparr>searchLoading := False\<rparr>)))"

section \<open>Properties\<close>

subsection \<open>The API modules\<close>

lemmas http_defs = http_get_def http_post_def http_put_def http_delete_def

lemmas taskApi_defs =
  taskApi_runTask_def taskApi_getTask_def taskApi_getTasks_def taskApi_deleteTask_def

lemmas businessKnowledgeApi_defs =
  businessKnowledgeApi_create_def businessKnowledgeApi_get_def businessKnowledgeApi_list_def
  businessKnowledgeApi_update_def businessKnowledgeApi_delete_def
  businessKnowledgeApi_searchByQuestion_def businessKnowledgeApi_searchByAnswer_def
  businessKnowledgeApi_count_def

lemmas reasoningKnowledgeApi_defs =
  reasoningKnowledgeApi_create_def reasoningKnowledgeApi_get_def reasoningKnowledgeApi_list_def
  reasoningKnowledgeApi_update_def reasoningKnowledgeApi_delete_def
  reasoningKnowledgeApi_searchByTask_def reasoningKnowledgeApi_searchByStep_def
  reasoningKnowledgeApi_count_def

text \<open>
  C6. Every function of \<open>taskApi\<close>, \<open>businessKnowledgeApi\<close> and \<open>reasoningKnowledgeApi\<close>
  issues its request through the one client \<open>api\<close>, whose base path is \<open>/api\<close> and whose
  timeout is 30000 ms.
\<close>

theorem shared_client:
  "baseURL api = ascii ''/api'' \<and> timeout api = 30000
   \<and> client (taskApi_runTask task taskId) = api
   \<and> client (taskApi_getTask nts i) = api
   \<and> client (taskApi_getTasks skip limit) = api
   \<and> client (taskApi_deleteTask nts i) = api
   \<and> client (businessKnowledgeApi_create d) = api
   \<and> client (businessKnowledgeApi_get nts i) = api
   \<and> client (businessKnowledgeApi_list skip limit) = api
   \<and> client (businessKnowledgeApi_update nts i d) = api
   \<and> client (businessKnowledgeApi_delete nts i) = api
   \<and> client (businessKnowledgeApi_searchByQuestion q k t) = api
   \<and> client (businessKnowledgeApi_searchByAnswer q k t) = api
   \<and> client businessKnowledgeApi_count = api
   \<and> client (reasoningKnowledgeApi_create d) = api
   \<and> client (reasoningKnowledgeApi_get nts i) = api
   \<and> client (reasoningKnowledgeApi_list skip limit) = api
   \<and> client (reasoningKnowledgeApi_update nts i d) = api
   \<and> client (reasoningKnowledgeApi_delete nts i) = api
   \<and> client (reasoningKnowledgeApi_searchByTask q k t) = api
   \<and> client (reasoningKnowledgeApi_searchByStep q k t) = api
   \<and> client reasoningKnowledgeApi_count = api"
  by (simp add: http_defs taskApi_defs businessKnowledgeApi_defs reasoningKnowledgeApi_defs)
    (simp add: api_def)

text \<open>
  C7. A similarity search called with a query, a result count and a threshold posts the
  body \<open>{query_text, top_k, threshold}\<close> holding exactly these three values to the endpoint
  of its axis (question or answer for business knowledge, task or step for reasoning
  knowledge); a list call sends \<open>skip\<close> and \<open>limit\<close> as its query parameters, unchanged.
\<close>

theorem search_and_list_pass_through:
  "businessKnowledgeApi_searchByQuestion q (Some k) (Some t) =
     \<lparr>client = api, verb = POST, url = ascii ''/business-knowledge/search/question'',
      params = [],
      data = JObj [(ascii ''query_text'', JStr q), (ascii ''top_k'', JNum k),
                   (ascii ''threshold'', JNum t)]\<rparr>
   \<and> businessKnowledgeApi_searchByAnswer q (Some k) (Some t) =
     \<lparr>client = api, verb = POST, url = ascii ''/business-knowledge/search/answer'',
      params = [],
      data = JObj [(ascii ''query_text'', JStr q), (ascii ''top_k'', JNum k),
                   (ascii ''threshold'', JNum t)]\<rparr>
   \<and> reasoningKnowledgeApi_searchByTask q (Some k) (Some t) =
     \<lparr>client = api, verb = POST, url = ascii ''/reasoning-knowledge/search/task'',
      params = [],
      data = JObj [(ascii ''query_text'', JStr q), (ascii ''top_k'', JNum k),
                   (ascii ''threshold'', JNum t)]\<rparr>
   \<and> reasoningKnowledgeApi_searchByStep q (Some k) (Some t) =
     \<lparr>client = api, verb = POST, url = ascii ''/reasoning-knowledge/search/step'',
      params = [],
      data = JObj [(ascii ''query_text'', JStr q), (ascii ''top_k'', JNum k),
                   (ascii ''threshold'', JNum t)]\<rparr>
   \<and> taskApi_getTasks (Some skip) (Some limit) =
     \<lparr>client = api, verb = GET, url = ascii ''/tasks'',
      params = [(ascii ''skip'', JNum skip), (ascii ''limit'', JNum limit)],
      data = JUndefined\<rparr>
   \<and> businessKnowledgeApi_list (Some skip) (Some limit) =
     \<lparr>client = api, verb = GET, url = ascii ''/business-knowledge'',
      params = [(ascii ''skip'', JNum skip), (ascii ''limit'', JNum limit)],
      data = JUndefined\<rparr>
   \<and> reasoningKnowledgeApi_list (Some skip) (Some limit) =
     \<lparr>client = api, verb = GET, url = ascii ''/reasoning-knowledge'',
      params = [(ascii ''skip'', JNum skip), (ascii ''limit'', JNum limit)],
      data = JUndefined\<rparr>"
  by (simp add: http_defs taskApi_defs businessKnowledgeApi_defs reasoningKnowledgeApi_defs
      default_arg_def)


subsection \<open>Failures\<close>

lemmas fetch_defs =
  TasksPage_fetchTasks_def BusinessKnowledgePage_fetchKnowledge_def
  ReasoningKnowledgePage_fetchKnowledge_def

lemma quiet_message_error [simp]:
  "requests (message_error nts p error) = []"
  "timers (message_error nts p error) = []"
  by (simp_all add: message_error_def split: sum.split)

lemma message_error_eq:
  "message_error nts p error =
     (if truthy (detail error)
      then (case to_string nts (detail error) of
              Inr t \<Rightarrow> [Message MsgError (p @ t)]
            | Inl e \<Rightarrow> [Uncaught e])
      else [Message MsgError (p @ message error)])"
  by (simp add: message_error_def detail_or_message_def)

lemma number_404:
  "num 404 = Fin 7107243161944064 (- 44)"
  "number_string nts (Fin 7107243161944064 (- 44)) = ascii ''404''"
  by code_simp+

lemma detail_cases:
  "detail \<lparr>response_data = None, message = m\<rparr> = JUndefined"
  "detail \<lparr>response_data = Some (JObj []), message = m\<rparr> = JUndefined"
  "detail \<lparr>response_data = Some (JObj ((ascii ''detail'', v) # kvs)), message = m\<rparr> = v"
  by (simp_all add: detail_def)

text \<open>
  C1, as the code has it. Every handler answers a failed call with the request that failed
  followed by \<open>message.error\<close> and nothing else: no request is repeated, and the state is
  the one before the call, but for the loading flag that a list fetch or a search clears.
  The text of the notification is the handler's prefix followed by the backend's \<open>detail\<close>,
  converted to a string as \<open>+\<close> does, when \<open>detail\<close> is truthy, and by
  \<open>error.message\<close> when \<open>detail\<close> is absent or falsy (\<open>null\<close>, the empty string, 0,
  \<open>false\<close>). A \<open>detail\<close> that is a non-empty string is shown as it is, the number
  404 as its digits, an array of one object as \<open>[object Object]\<close>.
\<close>

theorem failure_notifications:
  "message_error nts p error =
     (if truthy (detail error)
      then (case to_string nts (detail error) of
              Inr t \<Rightarrow> [Message MsgError (p @ t)]
            | Inl e \<Rightarrow> [Uncaught e])
      else [Message MsgError (p @ message error)])
   \<and> message_error nts p
        \<lparr>response_data = Some (JObj ((ascii ''detail'', JStr (c # cs)) # kvs)), message = m\<rparr>
       = [Message MsgError (p @ c # cs)]
   \<and> message_error nts p
        \<lparr>response_data = Some (JObj ((ascii ''detail'', JArr [JObj []]) # kvs)), message = m\<rparr>
       = [Message MsgError (p @ ascii ''[object Object]'')]
   \<and> message_error nts p
        \<lparr>response_data = Some (JObj ((ascii ''detail'', JNum (num 404)) # kvs)), message = m\<rparr>
       = [Message MsgError (p @ ascii ''404'')]
   \<and> message_error nts p
        \<lparr>response_data = Some (JObj ((ascii ''detail'', JBool True) # kvs)), message = m\<rparr>
       = [Message MsgError (p @ ascii ''true'')]
   \<and> message_error nts p
        \<lparr>response_data = Some (JObj ((ascii ''detail'', JStr []) # kvs)), message = m\<rparr>
       = [Message MsgError (p @ m)]
   \<and> message_error nts p
        \<lparr>response_data = Some (JObj ((ascii ''detail'', JNull) # kvs)), message = m\<rparr>
       = [Message MsgError (p @ m)]
   \<and> message_error nts p
        \<lparr>response_data = Some (JObj ((ascii ''detail'', JBool False) # kvs)), message = m\<rparr>
       = [Message MsgError (p @ m)]
   \<and> message_error nts p
        \<lparr>response_data = Some (JObj ((ascii ''detail'', JNum (Fin 0 0)) # kvs)), message = m\<rparr>
       = [Message MsgError (p @ m)]
   \<and> message_error nts p \<lparr>response_data = Some (JObj []), message = m\<rparr>
       = [Message MsgError (p @ m)]
   \<and> message_error nts p \<lparr>response_data = None, message = m\<rparr> = [Message MsgError (p @ m)]
   \<and> TasksPage_fetchTasks nts (Inl error) s =
     (Request (taskApi_getTasks (Some (num 0)) (Some (num 100)))
        # message_error nts msg_fetch_tasks_failed error,
      s\<lparr>loading := False\<rparr>)
   \<and> TasksPage_handleRunTask nts (Inl error) s =
     (if trim (taskInput s) = [] then ([Message MsgWarning msg_enter_task], s)
      else (Request (taskApi_runTask (trim (taskInput s)) None)
              # message_error nts msg_run_failed error, s))
   \<and> TasksPage_handleViewDetail nts i (Inl error) s =
     (Request (taskApi_getTask nts i) # message_error nts msg_detail_failed error, s)
   \<and> TasksPage_handleDelete_onOk nts i (Inl error) refreshed s =
     (Request (taskApi_deleteTask nts i) # message_error nts msg_delete_failed error, s)
   \<and> BusinessKnowledgePage_fetchKnowledge nts (Inl error) b =
     (Request (businessKnowledgeApi_list (Some (num 0)) (Some (num 100)))
        # message_error nts msg_fetch_knowledge_failed error,
      b\<lparr>loading := False\<rparr>)
   \<and> BusinessKnowledgePage_handleSubmit nts (Some v) (Inl error) refreshedB
        (b\<lparr>editingItem := None\<rparr>) =
     (Request (businessKnowledgeApi_create v) # message_error nts msg_operation_failed error,
      b\<lparr>editingItem := None\<rparr>)
   \<and> BusinessKnowledgePage_handleSubmit nts (Some v) (Inl error) refreshedB
        (b\<lparr>editingItem := Some itemB\<rparr>) =
     (Request (businessKnowledgeApi_update nts (id' itemB) v)
        # message_error nts msg_operation_failed error,
      b\<lparr>editingItem := Some itemB\<rparr>)
   \<and> BusinessKnowledgePage_handleDelete nts i (Inl error) refreshedB b =
     (Request (businessKnowledgeApi_delete nts i) # message_error nts msg_delete_failed error, b)
   \<and> BusinessKnowledgePage_handleSearch nts axisB (Some sv) (Inl error) b =
     (Request
        (if axisB = Question
         then businessKnowledgeApi_searchByQuestion (query_text sv)
                (Some (number_or (top_k sv) (num 5))) (Some (number_or (threshold sv) (num 0)))
         else businessKnowledgeApi_searchByAnswer (query_text sv)
                (Some (number_or (top_k sv) (num 5))) (Some (number_or (threshold sv) (num 0))))
        # message_error nts msg_search_failed error,
      b\<lparr>searchLoading := False\<rparr>)
   \<and> ReasoningKnowledgePage_fetchKnowledge nts (Inl error) r =
     (Request (reasoningKnowledgeApi_list (Some (num 0)) (Some (num 100)))
        # message_error nts msg_fetch_knowledge_failed error,
      r\<lparr>loading := False\<rparr>)
   \<and> ReasoningKnowledgePage_handleSubmit nts (Some v) (Inl error) refreshedR
        (r\<lparr>editingItem := None\<rparr>) =
     (Request (reasoningKnowledgeApi_create v) # message_error nts msg_operation_failed error,
      r\<lparr>editingItem := None\<rparr>)
   \<and> ReasoningKnowledgePage_handleSubmit nts (Some v) (Inl error) refreshedR
        (r\<lparr>editingItem := Some itemR\<rparr>) =
     (Request (reasoningKnowledgeApi_update nts (id' itemR) v)
        # message_error nts msg_operation_failed error,
      r\<lparr>editingItem := Some itemR\<rparr>)
   \<and> ReasoningKnowledgePage_handleDelete nts i (Inl error) refreshedR r =
     (Request (reasoningKnowledgeApi_delete nts i) # message_error nts msg_delete_failed error, r)
   \<and> ReasoningKnowledgePage_handleSearch nts axisR (Some sv) (Inl error) r =
     (Request
        (if axisR = ByTask
         then reasoningKnowledgeApi_searchByTask (query_text sv)
                (Some (number_or (top_k sv) (num 5))) (Some (number_or (threshold sv) (num 0)))
         else reasoningKnowledgeApi_searchByStep (query_text sv)
                (Some (number_or (top_k sv) (num 5))) (Some (number_or (threshold sv) (num 0))))
        # message_error nts msg_search_failed error,
      r\<lparr>searchLoading := False\<rparr>)"
  by (simp add: message_error_eq detail_def number_404 fetch_defs TasksPage_handleRunTask_def
      TasksPage_handleViewDetail_def TasksPage_handleDelete_onOk_def
      BusinessKnowledgePage_handleSubmit_def BusinessKnowledgePage_handleDelete_def
      BusinessKnowledgePage_handleSearch_def
      ReasoningKnowledgePage_handleSubmit_def ReasoningKnowledgePage_handleDelete_def
      ReasoningKnowledgePage_handleSearch_def)

text \<open>
  C1 as stated fails where \<open>detail\<close> is present and empty: the backend answers with
  status 500 and the body \<open>{"detail": ""}\<close>, and the notification is built from
  \<open>error.message\<close>, not from the field.
\<close>

theorem empty_detail_counterexample:
  "detail \<lparr>response_data = Some (JObj [(ascii ''detail'', JStr [])]),
           message = ascii ''Request failed with status code 500''\<rparr> = JStr []
   \<and> messages (fst (TasksPage_fetchTasks (\<lambda>x. [])
         (Inl \<lparr>response_data = Some (JObj [(ascii ''detail'', JStr [])]),
               message = ascii ''Request failed with status code 500''\<rparr>) TasksPage_initial))
       = [(MsgError, msg_fetch_tasks_failed @ ascii ''Request failed with status code 500'')]
   \<and> msg_fetch_tasks_failed @ ascii ''Request failed with status code 500''
       \<noteq> msg_fetch_tasks_failed @ []"
  by (simp add: TasksPage_fetchTasks_def message_error_eq detail_def) (simp add: ascii_def)

text \<open>
  C9. A list fetch that fails leaves the list as it was: the state after it is the state
  before it with the loading flag cleared, and the only other effect is the
  \<open>message.error\<close> of the \<open>catch\<close>, which issues no request and starts no timer.
\<close>

theorem failed_list_fetch_keeps_list:
  "TasksPage_fetchTasks nts (Inl error) s =
     (Request (taskApi_getTasks (Some (num 0)) (Some (num 100)))
        # message_error nts msg_fetch_tasks_failed error,
      s\<lparr>loading := False\<rparr>)
   \<and> tasks (snd (TasksPage_fetchTasks nts (Inl error) s)) = tasks s
   \<and> BusinessKnowledgePage_fetchKnowledge nts (Inl error) b =
     (Request (businessKnowledgeApi_list (Some (num 0)) (Some (num 100)))
        # message_error nts msg_fetch_knowledge_failed error,
      b\<lparr>loading := False\<rparr>)
   \<and> knowledgeList (snd (BusinessKnowledgePage_fetchKnowledge nts (Inl error) b))
       = knowledgeList b
   \<and> ReasoningKnowledgePage_fetchKnowledge nts (Inl error) r =
     (Request (reasoningKnowledgeApi_list (Some (num 0)) (Some (num 100)))
        # message_error nts msg_fetch_knowledge_failed error,
      r\<lparr>loading := False\<rparr>)
   \<and> knowledgeList (snd (ReasoningKnowledgePage_fetchKnowledge nts (Inl error) r))
       = knowledgeList r
   \<and> requests (message_error nts p error) = []
   \<and> timers (message_error nts p error) = []"
  by (simp add: fetch_defs)

subsection \<open>Submitting a task\<close>

text \<open>
  C4. When the trimmed task input is empty, the submit handler shows the warning, issues
  no request and leaves the page state as it was; otherwise it issues exactly one request:
  the POST to \<open>/tasks/run\<close> on the shared client whose body holds the trimmed text as
  \<open>task\<close> and no \<open>task_id\<close>.
\<close>

theorem empty_task_is_not_submitted:
  "(trim (taskInput s) = [] \<longrightarrow>
      TasksPage_handleRunTask nts response s = ([Message MsgWarning msg_enter_task], s))
   \<and> (trim (taskInput s) \<noteq> [] \<longrightarrow>
      requests (fst (TasksPage_handleRunTask nts response s)) =
        [\<lparr>client = api, verb = POST, url = ascii ''/tasks/run'', params = [],
          data = JObj [(ascii ''task'', JStr (trim (taskInput s))),
                       (ascii ''task_id'', JUndefined)]\<rparr>])"
  by (cases response)
    (simp_all add: TasksPage_handleRunTask_def taskApi_runTask_def http_post_def)

lemma trim_blank: "trim (ascii '' '') = []"
  by (simp add: trim_def ascii_def is_white_def)

lemma trim_go: "trim (ascii '' go '') = ascii ''go''"
  by (simp add: trim_def ascii_def is_white_def)

theorem empty_task_is_not_submitted_witness:
  "trim (taskInput (TasksPage_initial\<lparr>taskInput := ascii '' ''\<rparr>)) = []
   \<and> TasksPage_handleRunTask (\<lambda>x. []) (Inr \<lparr>task_id = num 7\<rparr>)
         (TasksPage_initial\<lparr>taskInput := ascii '' ''\<rparr>)
       = ([Message MsgWarning msg_enter_task], TasksPage_initial\<lparr>taskInput := ascii '' ''\<rparr>)
   \<and> trim (taskInput (TasksPage_initial\<lparr>taskInput := ascii '' go ''\<rparr>)) \<noteq> []
   \<and> requests (fst (TasksPage_handleRunTask (\<lambda>x. []) (Inr \<lparr>task_id = num 7\<rparr>)
                       (TasksPage_initial\<lparr>taskInput := ascii '' go ''\<rparr>)))
       = [\<lparr>client = \<lparr>baseURL = ascii ''/api'', timeout = 30000\<rparr>, verb = POST,
           url = ascii ''/tasks/run'', params = [],
           data = JObj [(ascii ''task'', JStr (ascii ''go'')),
                        (ascii ''task_id'', JUndefined)]\<rparr>]"
  using empty_task_is_not_submitted
          [of "TasksPage_initial\<lparr>taskInput := ascii '' ''\<rparr>" "\<lambda>x. []"
              "Inr \<lparr>task_id = num 7\<rparr>"]
        empty_task_is_not_submitted
          [of "TasksPage_initial\<lparr>taskInput := ascii '' go ''\<rparr>" "\<lambda>x. []"
              "Inr \<lparr>task_id = num 7\<rparr>"]
  by (simp add: trim_blank trim_go api_def) (simp add: ascii_def)

subsection \<open>Refreshing after a mutation\<close>




















subsection \<open>Rendering\<close>

lemma texts_distinct:
  "txt_unknown \<noteq> txt_yes" "txt_unknown \<noteq> txt_no" "txt_yes \<noteq> txt_no"
  "txt_yes \<noteq> txt_unknown" "txt_no \<noteq> txt_unknown" "txt_no \<noteq> txt_yes"
  by (simp_all add: txt_unknown_def txt_yes_def txt_no_def)

lemma optional_bool_cases:
  "x = Undefined \<or> x = Null \<or> x = Defined True \<or> x = Defined False"
  by (cases x) auto

lemma render_all_success_iff:
  "(render_all_success x = Tag (ascii ''default'') txt_unknown \<longleftrightarrow> x = Null \<or> x = Undefined)
   \<and> (render_all_success x = Tag (ascii ''success'') txt_yes \<longleftrightarrow> x = Defined True)
   \<and> (render_all_success x = Tag (ascii ''error'') txt_no \<longleftrightarrow> x = Defined False)"
  using optional_bool_cases [of x]
  by (auto simp add: render_all_success_def texts_distinct)

lemma render_can_execute_iff:
  "(render_can_execute x = Tag (ascii ''default'') txt_unknown \<longleftrightarrow> x = Null \<or> x = Undefined)
   \<and> (render_can_execute x = Tag (ascii ''success'') txt_yes \<longleftrightarrow> x = Defined True)
   \<and> (render_can_execute x = Tag (ascii ''error'') txt_no \<longleftrightarrow> x = Defined False)"
  using optional_bool_cases [of x]
  by (auto simp add: render_can_execute_def texts_distinct)

lemma detail_all_success_iff:
  "(detail_all_success t = txt_unknown \<longleftrightarrow> all_success t = Null \<or> all_success t = Undefined)
   \<and> (detail_all_success t = txt_yes \<longleftrightarrow> all_success t = Defined True)
   \<and> (detail_all_success t = txt_no \<longleftrightarrow> all_success t = Defined False)"
  using optional_bool_cases [of "all_success t"]
  by (auto simp add: detail_all_success_def texts_distinct)

lemma detail_can_execute_iff:
  "(detail_can_execute t = txt_unknown \<longleftrightarrow> can_execute t = Null \<or> can_execute t = Undefined)
   \<and> (detail_can_execute t = txt_yes \<longleftrightarrow> can_execute t = Defined True)
   \<and> (detail_can_execute t = txt_no \<longleftrightarrow> can_execute t = Defined False)"
  using optional_bool_cases [of "can_execute t"]
  by (auto simp add: detail_can_execute_def texts_distinct)

text \<open>
  C8. The columns \<open>all_success\<close> and \<open>can_execute\<close> and the two items of the detail
  dialog show the unknown state exactly when the field is \<open>null\<close> or \<open>undefined\<close>, the
  affirmative one exactly when it is \<open>true\<close> and the negative one exactly when it is
  \<open>false\<close>; the tasks they are read from are the ones the backend sent.
\<close>

theorem success_flags_rendered_as_sent:
  "(column_all_success t = Tag (ascii ''default'') txt_unknown
      \<longleftrightarrow> all_success t = Null \<or> all_success t = Undefined)
   \<and> (column_all_success t = Tag (ascii ''success'') txt_yes \<longleftrightarrow> all_success t = Defined True)
   \<and> (column_all_success t = Tag (ascii ''error'') txt_no \<longleftrightarrow> all_success t = Defined False)
   \<and> (column_can_execute t = Tag (ascii ''default'') txt_unknown
      \<longleftrightarrow> can_execute t = Null \<or> can_execute t = Undefined)
   \<and> (column_can_execute t = Tag (ascii ''success'') txt_yes \<longleftrightarrow> can_execute t = Defined True)
   \<and> (column_can_execute t = Tag (ascii ''error'') txt_no \<longleftrightarrow> can_execute t = Defined False)
   \<and> (detail_all_success t = txt_unknown \<longleftrightarrow> all_success t = Null \<or> all_success t = Undefined)
   \<and> (detail_all_success t = txt_yes \<longleftrightarrow> all_success t = Defined True)
   \<and> (detail_all_success t = txt_no \<longleftrightarrow> all_success t = Defined False)
   \<and> (detail_can_execute t = txt_unknown \<longleftrightarrow> can_execute t = Null \<or> can_execute t = Undefined)
   \<and> (detail_can_execute t = txt_yes \<longleftrightarrow> can_execute t = Defined True)
   \<and> (detail_can_execute t = txt_no \<longleftrightarrow> can_execute t = Defined False)
   \<and> tasks (snd (TasksPage_fetchTasks nts (Inr d) s)) = d
   \<and> selectedTask (snd (TasksPage_handleViewDetail nts i (Inr t) s)) = Some t"
  unfolding column_all_success_def column_can_execute_def
  using render_all_success_iff [of "all_success t"] render_can_execute_iff [of "can_execute t"]
    detail_all_success_iff [of t] detail_can_execute_iff [of t]
  by (simp add: TasksPage_fetchTasks_def TasksPage_handleViewDetail_def)

lemma fixed_873:
  "toFixed nts (multiply (decimal 873 3) (num 100)) 2 @ ascii ''%'' = ascii ''87.30%''"
  by code_simp

lemma fixed_null:
  "toFixed nts (multiply (num 0) (num 100)) 2 @ ascii ''%'' = ascii ''0.00%''"
  by code_simp

text \<open>
  C3. A similarity that is defined is shown as \<open>(similarity * 100).toFixed(2)\<close> followed by
  the percent sign, so 0.873 is shown as \<open>87.30%\<close> (and \<open>null\<close>, which multiplies as 0,
  as \<open>0.00%\<close>); one that is \<open>undefined\<close> is shown as a dash.
\<close>

theorem similarity_column:
  "column_similarity nts (r\<lparr>similarity := Defined x\<rparr>)
     = toFixed nts (multiply x (num 100)) 2 @ ascii ''%''
   \<and> column_similarity nts (r\<lparr>similarity := Defined (decimal 873 3)\<rparr>) = ascii ''87.30%''
   \<and> column_similarity nts (r\<lparr>similarity := Null\<rparr>) = ascii ''0.00%''
   \<and> column_similarity nts (r\<lparr>similarity := Undefined\<rparr>) = ascii ''-''"
  by (simp add: column_similarity_def render_similarity_def fixed_873 fixed_null)

text \<open>
  C10 at the input \<open>null\<close>. The text parses as JSON, to \<open>null\<close>; reading \<open>summary\<close> off
  it throws, the \<open>catch\<close> written for text that is not JSON takes over, and the cell shows
  the text as it is, without the dots that follow every other JSON text lacking a summary.
\<close>

theorem final_result_null:
  "JSON_parse (ascii ''null'') = Inr JNull \<Longrightarrow>
     column_final_result JSON_parse (t\<lparr>final_result := Defined (ascii ''null'')\<rparr>)
       = JStr (ascii ''null'')"
  by (simp add: column_final_result_def render_final_result_def get_summary_def
      substring0_def) (simp add: ascii_def)

theorem final_result_null_witness:
  "(\<lambda>t. if t = ascii ''null'' then Inr JNull else Inl SyntaxError) (ascii ''null'') = Inr JNull
   \<and> column_final_result (\<lambda>t. if t = ascii ''null'' then Inr JNull else Inl SyntaxError)
        (\<lparr>id' = num 1, original_task = ascii ''t'', enhanced_task = Undefined, can_execute = Null,
          execution_reason = Null, steps = Null, step_results = JNull,
          final_result = Null, all_success = Null\<rparr>\<lparr>final_result := Defined (ascii ''null'')\<rparr>)
       = JStr (ascii ''null'')
   \<and> JStr (ascii ''null'') \<noteq> JStr (substring0 (ascii ''null'') 50 @ ascii ''...'')"
  using final_result_null
    [of "\<lambda>t. if t = ascii ''null'' then Inr JNull else Inl SyntaxError"
        "\<lparr>id' = num 1, original_task = ascii ''t'', enhanced_task = Undefined, can_execute = Null,
          execution_reason = Null, steps = Null, step_results = JNull,
          final_result = Null, all_success = Null\<rparr>"]
  by (simp add: substring0_def) (simp add: ascii_def)

text \<open>
  All the cases of the column \<open>final_result\<close>: an absent or empty text, a text that
  does not parse, one whose parsed value throws on the property read, and one that has or
  lacks a truthy summary.
\<close>

lemma final_result_other:
  "render_final_result JSON_parse Undefined = JStr (ascii ''-'')
   \<and> render_final_result JSON_parse Null = JStr (ascii ''-'')
   \<and> render_final_result JSON_parse (Defined []) = JStr (ascii ''-'')
   \<and> (JSON_parse (c # cs) = Inl err \<longrightarrow>
        render_final_result JSON_parse (Defined (c # cs)) =
          JStr (if 50 < length (c # cs) then take 50 (c # cs) @ ascii ''...'' else c # cs))
   \<and> (JSON_parse (c # cs) = Inr v \<and> get_summary v = Inl err \<longrightarrow>
        render_final_result JSON_parse (Defined (c # cs)) =
          JStr (if 50 < length (c # cs) then take 50 (c # cs) @ ascii ''...'' else c # cs))
   \<and> (JSON_parse (c # cs) = Inr v \<and> get_summary v = Inr sm \<and> truthy sm \<longrightarrow>
        render_final_result JSON_parse (Defined (c # cs)) = sm)
   \<and> (JSON_parse (c # cs) = Inr v \<and> get_summary v = Inr sm \<and> \<not> truthy sm \<longrightarrow>
        render_final_result JSON_parse (Defined (c # cs)) = JStr (take 50 (c # cs) @ ascii ''...''))"
  by (simp add: render_final_result_def substring0_def)

end
